theory Spec2Isabelle
  imports Complex_Main
begin

section \<open>EV battery monitor: the estimation core of server.js\<close>

text \<open>
  The backend exists in two variants that share their derived-metrics functions. The
  first variant estimates SOC from the voltage and SOH by additive penalties; the
  second variant keeps a coulomb counter in module-level variables and estimates SOH
  by multiplying two factors.

  JavaScript numbers are IEEE doubles. They are modelled here by the real numbers, so
  the statements about that model are about the arithmetic of the code without
  rounding and without overflow to Infinity. The one place where the code itself tests
  for not-a-number (\<open>isNaN(current)\<close> in \<open>calculateRuntime\<close>) is modelled with a
  number type that has that extra value. The coulomb counter is modelled a second time
  over doubles with their infinities and not-a-number, for what its clamp does with
  those values. \<open>Date.now()\<close> yields whole milliseconds and is an \<open>int\<close> handed in
  by the caller.
\<close>

subsection \<open>Battery parameters and coulomb-counting state (second variant)\<close>

definition BATTERY_CAPACITY :: real where
  "BATTERY_CAPACITY = 2000.0"  \<comment> \<open>mAh\<close>

definition NOMINAL_VOLTAGE :: real where
  "NOMINAL_VOLTAGE = 3.7"

definition MAX_VOLTAGE :: real where
  "MAX_VOLTAGE = 4.2"

definition MIN_VOLTAGE :: real where
  "MIN_VOLTAGE = 3.0"

text \<open>
  The module-level variables that the code writes. \<open>initialCapacity\<close> and
  \<open>previousCurrent\<close> are declared beside them but never read or written again, so
  they carry no state.
\<close>

record state =
  totalCurrent_mAh :: real
  consumedCapacity :: real
  lastUpdateTime :: int
  isCharging :: bool

text \<open>The values the variables get when the module is loaded at time \<open>t0\<close>.\<close>

definition initial :: "int \<Rightarrow> state" where
  "initial t0 =
     \<lparr> totalCurrent_mAh = 0.0, consumedCapacity = 0.0, lastUpdateTime = t0,
       isCharging = False \<rparr>"

subsection \<open>calculateSOC (coulomb counting)\<close>

text \<open>\<open>(currentTime - lastUpdateTime) / 3600000.0\<close>: milliseconds to hours.\<close>

definition deltaTime_h :: "state \<Rightarrow> int \<Rightarrow> real" where
  "deltaTime_h s currentTime = real_of_int (currentTime - lastUpdateTime s) / 3600000.0"

text \<open>The integration step: the body of \<open>if (deltaTime_h > 0)\<close>.\<close>

definition integrate :: "real \<Rightarrow> int \<Rightarrow> state \<Rightarrow> state" where
  "integrate current_mA currentTime s =
     (if deltaTime_h s currentTime > 0 then
        let deltaCapacity_mAh = current_mA * deltaTime_h s currentTime;
            s1 = s\<lparr>totalCurrent_mAh := totalCurrent_mAh s + deltaCapacity_mAh\<rparr>;
            s2 = (if current_mA > 0
                  then s1\<lparr>consumedCapacity := consumedCapacity s1 + deltaCapacity_mAh,
                          isCharging := False\<rparr>
                  else s1\<lparr>isCharging := True\<rparr>)
        in s2\<lparr>lastUpdateTime := currentTime\<rparr>
      else s)"

text \<open>The rest of the function: remaining capacity as a percentage, clamped.\<close>

definition socOf :: "state \<Rightarrow> real" where
  "socOf s =
     (let remainingCapacity = BATTERY_CAPACITY - consumedCapacity s;
          soc = (remainingCapacity / BATTERY_CAPACITY) * 100.0;
          soc = (if soc > 100.0 then 100.0 else soc);
          soc = (if soc < 0.0 then 0.0 else soc)
      in soc)"

text \<open>
  \<open>calculateSOC(current_mA, voltage)\<close> with the clock reading as a parameter and the
  module variables passed in and out. The voltage is not used by the code.
\<close>

definition calculateSOC :: "real \<Rightarrow> real \<Rightarrow> int \<Rightarrow> state \<Rightarrow> real \<times> state" where
  "calculateSOC current_mA voltage currentTime s =
     (let s' = integrate current_mA currentTime s in (socOf s', s'))"

text \<open>
  The \<open>/api/data\<close> handler converts the telemetry current from A to mA before the
  call: \<open>current_mA = current * 1000\<close>. This is the update operation on amperes.
\<close>

definition update :: "real \<Rightarrow> real \<Rightarrow> int \<Rightarrow> state \<Rightarrow> real \<times> state" where
  "update currentAmps voltage now s = calculateSOC (currentAmps * 1000) voltage now s"

text \<open>The same quantities in the units of the specification (Ah and hours).\<close>

definition ratedCapacityAh :: real where
  "ratedCapacityAh = BATTERY_CAPACITY / 1000"

definition consumedCapacityAh :: "state \<Rightarrow> real" where
  "consumedCapacityAh s = consumedCapacity s / 1000"

subsection \<open>The /api/reset-soc handler\<close>

text \<open>
  The request body's \<open>soc\<close> is a JSON number or is absent (\<open>None\<close>).
  \<open>soc || 100\<close> takes the default for every falsy value; of the numbers that JSON
  can carry, only 0 is falsy.
\<close>

definition resetSOC :: "real option \<Rightarrow> real" where
  "resetSOC soc = (case soc of None \<Rightarrow> 100 | Some p \<Rightarrow> (if p = 0 then 100 else p))"

definition reset_soc :: "real option \<Rightarrow> int \<Rightarrow> state \<Rightarrow> state" where
  "reset_soc soc now s =
     s\<lparr> totalCurrent_mAh := 0.0,
        consumedCapacity := ((100 - resetSOC soc) / 100) * BATTERY_CAPACITY,
        lastUpdateTime := now \<rparr>"

subsection \<open>Sequences of operations on the coulomb counter\<close>

datatype operation =
    Update real real int          \<comment> \<open>currentAmps, voltage, clock reading\<close>
  | Reset "real option" int       \<comment> \<open>asserted SOC of the request body, clock reading\<close>

fun apply_operation :: "operation \<Rightarrow> state \<Rightarrow> state" where
  "apply_operation (Update currentAmps voltage now) s = snd (update currentAmps voltage now s)"
| "apply_operation (Reset soc now) s = reset_soc soc now s"

fun run :: "operation list \<Rightarrow> state \<Rightarrow> state" where
  "run [] s = s"
| "run (x # xs) s = run xs (apply_operation x s)"

text \<open>Whether a reset asserts at most 100 percent (or nothing); updates pass.\<close>

fun asserts_at_most_100 :: "operation \<Rightarrow> bool" where
  "asserts_at_most_100 (Update currentAmps voltage now) = True"
| "asserts_at_most_100 (Reset None now) = True"
| "asserts_at_most_100 (Reset (Some p) now) = (p \<le> 100)"

fun resets_at_most_100 :: "operation list \<Rightarrow> bool" where
  "resets_at_most_100 [] = True"
| "resets_at_most_100 (x # xs) = (asserts_at_most_100 x \<and> resets_at_most_100 xs)"

text \<open>The SOC values returned by successive update calls, oldest first.\<close>

fun updates :: "(real \<times> real \<times> int) list \<Rightarrow> state \<Rightarrow> real list" where
  "updates [] s = []"
| "updates ((currentAmps, voltage, now) # xs) s =
     fst (update currentAmps voltage now s) # updates xs (snd (update currentAmps voltage now s))"

text \<open>
  Every call of the sequence sees a positive current and a clock that has advanced
  since the call before it.
\<close>

fun discharging :: "(real \<times> real \<times> int) list \<Rightarrow> state \<Rightarrow> bool" where
  "discharging [] s = True"
| "discharging ((currentAmps, voltage, now) # xs) s =
     (0 < currentAmps \<and> 0 < deltaTime_h s now \<and>
      discharging xs (snd (update currentAmps voltage now s)))"

subsection \<open>calculateSOH, first variant (additive penalties, Model A)\<close>

definition calculateSOH_A :: "real \<Rightarrow> real \<Rightarrow> real \<Rightarrow> real" where
  "calculateSOH_A voltage current temperature =
     (let totalDegradation = 0;
          \<comment> \<open>factor 1: voltage sag under load\<close>
          totalDegradation = totalDegradation +
            (if \<bar>current\<bar> > 0 then
               let expectedVoltageDrop = \<bar>current\<bar> * 0.1;
                   expectedVoltage = 3.7 - expectedVoltageDrop
               in if voltage < expectedVoltage - 0.2 then 10
                  else if voltage < expectedVoltage - 0.1 then 5 else 0
             else 0);
          \<comment> \<open>factor 2: temperature\<close>
          totalDegradation = totalDegradation +
            (if temperature > 60 then 15
             else if temperature > 50 then 10
             else if temperature > 40 then 5
             else if temperature < 0 then 8
             else if temperature < 10 then 3 else 0);
          \<comment> \<open>factor 3: deep discharge\<close>
          totalDegradation = totalDegradation +
            (if voltage < 3.0 then 20
             else if voltage < 3.2 then 10
             else if voltage < 3.4 then 3 else 0);
          \<comment> \<open>factor 4: discharge rate; the function's own \<open>BATTERY_CAPACITY\<close> is 2.0 Ah\<close>
          cRate = \<bar>current\<bar> / 2.0;
          totalDegradation = totalDegradation +
            (if cRate > 2.0 then 8
             else if cRate > 1.5 then 5
             else if cRate > 1.0 then 2 else 0);
          \<comment> \<open>factor 5: overcharge\<close>
          totalDegradation = totalDegradation +
            (if voltage > 4.25 then 15
             else if voltage > 4.22 then 5 else 0);
          soh = 100 - totalDegradation
      in max 0 (min 100 soh))"

subsection \<open>calculateSOH, second variant (two factors multiplied, Model B)\<close>

definition calculateSOH_B :: "real \<Rightarrow> real \<Rightarrow> real" where
  "calculateSOH_B voltage temperature =
     (let voltageFactor =
            (if voltage < MIN_VOLTAGE + 0.2 then 0.8
             else if voltage < NOMINAL_VOLTAGE then 0.9 else 1.0);
          temperatureFactor =
            (if temperature > 45.0 \<or> temperature < 0.0 then 0.85
             else if temperature > 35.0 \<or> temperature < 10.0 then 0.95 else 1.0);
          soh = voltageFactor * temperatureFactor * 100.0;
          soh = (if soh > 100.0 then 100.0 else soh);
          soh = (if soh < 0.0 then 0.0 else soh)
      in soh)"

subsection \<open>Derived metrics (the same text in both variants)\<close>

text \<open>
  A JavaScript number that may be not-a-number. Every comparison with \<open>NaN\<close> is
  false, so \<open>current <= 0 || isNaN(current)\<close> takes the first branch for \<open>NaN\<close>
  through its second disjunct only.
\<close>

datatype number = Num real | NaN

fun isNaN :: "number \<Rightarrow> bool" where
  "isNaN NaN = True"
| "isNaN (Num x) = False"

fun le_zero :: "number \<Rightarrow> bool" where
  "le_zero (Num x) = (x \<le> 0)"
| "le_zero NaN = False"

text \<open>\<open>Math.abs\<close> of a number that is known not to be \<open>NaN\<close>.\<close>

fun abs_num :: "number \<Rightarrow> real" where
  "abs_num (Num x) = \<bar>x\<bar>"
| "abs_num NaN = 0"

text \<open>
  \<open>calculateRuntime(soc, current)\<close>. Its local constants are
  \<open>BATTERY_CAPACITY = 2.0\<close> (Ah) and \<open>EFFICIENCY = 0.85\<close>. The division happens
  only behind the guard, where the current is a positive number.
\<close>

definition calculateRuntime :: "real \<Rightarrow> number \<Rightarrow> real" where
  "calculateRuntime soc current =
     (let availableCapacity = (soc / 100) * 2.0
      in if le_zero current \<or> isNaN current then availableCapacity
         else let runtime = availableCapacity / abs_num current;
                  runtime = runtime * 0.85
              in max 0 runtime)"

definition calculateRange :: "real \<Rightarrow> number \<Rightarrow> real" where
  "calculateRange soc current =
     (let runtime = calculateRuntime soc current;
          range = runtime * 25
      in max 0 range)"

definition calculatePower :: "real \<Rightarrow> real \<Rightarrow> real" where
  "calculatePower voltage current = voltage * \<bar>current\<bar>"

definition calculateEnergy :: "real \<Rightarrow> real \<Rightarrow> real" where
  "calculateEnergy voltage soc =
     (let availableCapacity = (soc / 100) * 2.0;
          energy = voltage * availableCapacity
      in energy)"

subsection \<open>The coulomb counter over doubles with infinities and not-a-number\<close>

text \<open>
  A double is a finite number, one of the two infinities or not-a-number. Finite results
  are kept exact (no rounding); a result whose magnitude reaches \<open>2 ^ 1024\<close>, beyond
  the largest double, becomes an infinity. Signed zeros are not told apart.
\<close>

datatype double = Finite real | PosInfinity | NegInfinity | NotANumber

definition overflow :: "real \<Rightarrow> double" where
  "overflow x =
     (if 2 ^ 1024 \<le> x then PosInfinity
      else if x \<le> - (2 ^ 1024) then NegInfinity
      else Finite x)"

text \<open>\<open>x + y\<close>: not-a-number spreads, and opposite infinities add up to not-a-number.\<close>

fun add_d :: "double \<Rightarrow> double \<Rightarrow> double" where
  "add_d NotANumber y = NotANumber"
| "add_d x NotANumber = NotANumber"
| "add_d PosInfinity NegInfinity = NotANumber"
| "add_d NegInfinity PosInfinity = NotANumber"
| "add_d PosInfinity y = PosInfinity"
| "add_d x PosInfinity = PosInfinity"
| "add_d NegInfinity y = NegInfinity"
| "add_d x NegInfinity = NegInfinity"
| "add_d (Finite a) (Finite b) = overflow (a + b)"

fun neg_d :: "double \<Rightarrow> double" where
  "neg_d (Finite a) = Finite (- a)"
| "neg_d PosInfinity = NegInfinity"
| "neg_d NegInfinity = PosInfinity"
| "neg_d NotANumber = NotANumber"

definition sub_d :: "double \<Rightarrow> double \<Rightarrow> double" where
  "sub_d x y = add_d x (neg_d y)"

fun sign_d :: "double \<Rightarrow> real" where
  "sign_d (Finite a) = sgn a"
| "sign_d PosInfinity = 1"
| "sign_d NegInfinity = - 1"
| "sign_d NotANumber = 0"

text \<open>\<open>x * y\<close>: an infinity times zero is not-a-number, otherwise the signs multiply.\<close>

fun mul_d :: "double \<Rightarrow> double \<Rightarrow> double" where
  "mul_d NotANumber y = NotANumber"
| "mul_d x NotANumber = NotANumber"
| "mul_d (Finite a) (Finite b) = overflow (a * b)"
| "mul_d x y =
     (if sign_d x * sign_d y = 0 then NotANumber
      else if 0 < sign_d x * sign_d y then PosInfinity else NegInfinity)"

text \<open>
  \<open>x / c\<close> for a finite constant \<open>c\<close> other than zero; the code divides by
  \<open>BATTERY_CAPACITY\<close> and by 100 only.
\<close>

fun div_d :: "double \<Rightarrow> real \<Rightarrow> double" where
  "div_d (Finite a) c = overflow (a / c)"
| "div_d PosInfinity c = (if 0 < c then PosInfinity else NegInfinity)"
| "div_d NegInfinity c = (if 0 < c then NegInfinity else PosInfinity)"
| "div_d NotANumber c = NotANumber"

text \<open>\<open>x > c\<close> and \<open>x < c\<close>: every comparison with not-a-number is false.\<close>

fun gt_d :: "double \<Rightarrow> real \<Rightarrow> bool" where
  "gt_d (Finite a) c = (a > c)"
| "gt_d PosInfinity c = True"
| "gt_d NegInfinity c = False"
| "gt_d NotANumber c = False"

fun lt_d :: "double \<Rightarrow> real \<Rightarrow> bool" where
  "lt_d (Finite a) c = (a < c)"
| "lt_d PosInfinity c = False"
| "lt_d NegInfinity c = True"
| "lt_d NotANumber c = False"


text \<open>The module variables again, the two capacities now doubles.\<close>

record dstate =
  totalCurrent_mAh_d :: double
  consumedCapacity_d :: double
  lastUpdateTime_d :: int
  isCharging_d :: bool

definition initial_d :: "int \<Rightarrow> dstate" where
  "initial_d t0 =
     \<lparr> totalCurrent_mAh_d = Finite 0.0, consumedCapacity_d = Finite 0.0,
       lastUpdateTime_d = t0, isCharging_d = False \<rparr>"

text \<open>
  \<open>calculateSOC(current_mA, voltage)\<close>, statement by statement. The elapsed time is a
  difference of clock readings and hence finite.
\<close>

definition calculateSOC_d :: "double \<Rightarrow> real \<Rightarrow> int \<Rightarrow> dstate \<Rightarrow> double \<times> dstate" where
  "calculateSOC_d current_mA voltage currentTime s =
     (let deltaTime_h = real_of_int (currentTime - lastUpdateTime_d s) / 3600000.0;
          s' = (if deltaTime_h > 0 then
                  let deltaCapacity_mAh = mul_d current_mA (Finite deltaTime_h);
                      s1 = s\<lparr>totalCurrent_mAh_d :=
                               add_d (totalCurrent_mAh_d s) deltaCapacity_mAh\<rparr>;
                      s2 = (if gt_d current_mA 0
                            then s1\<lparr>consumedCapacity_d :=
                                       add_d (consumedCapacity_d s1) deltaCapacity_mAh,
                                    isCharging_d := False\<rparr>
                            else s1\<lparr>isCharging_d := True\<rparr>)
                  in s2\<lparr>lastUpdateTime_d := currentTime\<rparr>
                else s);
          remainingCapacity = sub_d (Finite BATTERY_CAPACITY) (consumedCapacity_d s');
          soc = mul_d (div_d remainingCapacity BATTERY_CAPACITY) (Finite 100.0);
          soc = (if gt_d soc 100.0 then Finite 100.0 else soc);
          soc = (if lt_d soc 0.0 then Finite 0.0 else soc)
      in (soc, s'))"

text \<open>The \<open>/api/data\<close> handler's call: \<open>current_mA = current * 1000\<close>.\<close>

definition update_d :: "double \<Rightarrow> real \<Rightarrow> int \<Rightarrow> dstate \<Rightarrow> double \<times> dstate" where
  "update_d current voltage now s = calculateSOC_d (mul_d current (Finite 1000)) voltage now s"



section \<open>Properties\<close>

subsection \<open>Basic facts about the integration step and the clamped percentage\<close>

lemma update_unfold:
  "update currentAmps voltage now s =
     (socOf (integrate (currentAmps * 1000) now s), integrate (currentAmps * 1000) now s)"
  by (simp add: update_def calculateSOC_def Let_def)

lemma consumed_integrate_discharge:
  "0 < current_mA \<Longrightarrow> 0 < deltaTime_h s t \<Longrightarrow>
     consumedCapacity (integrate current_mA t s) = consumedCapacity s + current_mA * deltaTime_h s t"
  by (simp add: integrate_def Let_def)

lemma consumed_integrate_idle:
  "current_mA \<le> 0 \<Longrightarrow> consumedCapacity (integrate current_mA t s) = consumedCapacity s"
  by (simp add: integrate_def Let_def)

lemma integrate_stalled:
  "deltaTime_h s t \<le> 0 \<Longrightarrow> integrate current_mA t s = s"
  by (simp add: integrate_def)

lemma consumed_integrate_mono:
  "consumedCapacity s \<le> consumedCapacity (integrate current_mA t s)"
proof (cases "0 < current_mA \<and> 0 < deltaTime_h s t")
  case True
  then have "0 \<le> current_mA * deltaTime_h s t" by simp
  with True show ?thesis by (simp add: consumed_integrate_discharge)
next
  case False
  then show ?thesis by (auto simp: integrate_def Let_def)
qed

lemma socOf_range: "0 \<le> socOf s \<and> socOf s \<le> 100"
  by (simp add: socOf_def Let_def)

lemma socOf_antimono:
  "consumedCapacity s \<le> consumedCapacity s' \<Longrightarrow> socOf s' \<le> socOf s"
  by (simp add: socOf_def Let_def BATTERY_CAPACITY_def)

lemma consumed_reset:
  "consumedCapacity (reset_soc soc now s) = ((100 - resetSOC soc) / 100) * BATTERY_CAPACITY"
  by (simp add: reset_soc_def)

lemma clamp_lower: "0 \<le> max 0 (min 100 (x::real))"
  by simp

lemma clamp_upper: "max 0 (min 100 (x::real)) \<le> 100"
  by simp

subsection \<open>Discharge is integrated exactly\<close>

text \<open>
  Claim C1. An update call with a positive current, made after the clock has advanced,
  adds exactly current times elapsed hours to the consumed capacity in Ah. The rated
  capacity is 2.0 Ah, and from a consumed capacity of 0 one update with 2 A after exactly
  one hour leaves 2.0 Ah consumed and returns an SOC of 0.
\<close>

theorem update_adds_current_times_hours:
  "(0 < currentAmps \<and> 0 < deltaTime_h s now \<longrightarrow>
      consumedCapacityAh (snd (update currentAmps voltage now s)) =
        consumedCapacityAh s + currentAmps * deltaTime_h s now)
   \<and> ratedCapacityAh = 2.0
   \<and> (consumedCapacityAh s = 0 \<and> deltaTime_h s now = 1 \<longrightarrow>
        consumedCapacityAh (snd (update 2 voltage now s)) = 2.0
        \<and> fst (update 2 voltage now s) = 0)"
proof (intro conjI impI)
  assume "0 < currentAmps \<and> 0 < deltaTime_h s now"
  then show "consumedCapacityAh (snd (update currentAmps voltage now s)) =
        consumedCapacityAh s + currentAmps * deltaTime_h s now"
    by (simp add: update_unfold consumedCapacityAh_def consumed_integrate_discharge)
next
  show "ratedCapacityAh = 2.0"
    by (simp add: ratedCapacityAh_def BATTERY_CAPACITY_def)
next
  assume a: "consumedCapacityAh s = 0 \<and> deltaTime_h s now = 1"
  then have c: "consumedCapacity (integrate (2 * 1000) now s) = 2000"
    by (simp add: consumed_integrate_discharge consumedCapacityAh_def)
  then show "consumedCapacityAh (snd (update 2 voltage now s)) = 2.0"
    by (simp add: update_unfold consumedCapacityAh_def)
  from c show "fst (update 2 voltage now s) = 0"
    by (simp add: update_unfold socOf_def Let_def BATTERY_CAPACITY_def)
qed

theorem update_adds_current_times_hours_witness:
  "0 < (2::real) \<and> 0 < deltaTime_h (initial 0) 3600000
   \<and> consumedCapacityAh (initial 0) = 0 \<and> deltaTime_h (initial 0) 3600000 = 1
   \<and> consumedCapacityAh (snd (update 2 3.7 3600000 (initial 0))) = 2.0
   \<and> fst (update 2 3.7 3600000 (initial 0)) = 0"
proof -
  have h: "deltaTime_h (initial 0) 3600000 = 1"
    by (simp add: deltaTime_h_def initial_def)
  have c: "consumedCapacityAh (initial 0) = 0"
    by (simp add: consumedCapacityAh_def initial_def)
  from update_adds_current_times_hours [of 2 "initial 0" 3600000 "3.7"] h c
  have "consumedCapacityAh (snd (update 2 3.7 3600000 (initial 0))) = 2.0
     \<and> fst (update 2 3.7 3600000 (initial 0)) = 0"
    by blast
  with h c show ?thesis by simp
qed

subsection \<open>The accumulator itself is not clamped\<close>

lemma apply_operation_nonneg:
  assumes "0 \<le> consumedCapacity s" and "asserts_at_most_100 x"
  shows "0 \<le> consumedCapacity (apply_operation x s)"
proof (cases x)
  case (Update c v t)
  have "consumedCapacity s \<le> consumedCapacity (integrate (c * 1000) t s)"
    by (rule consumed_integrate_mono)
  with assms(1) show ?thesis by (simp add: Update update_unfold)
next
  case (Reset soc t)
  with assms(2) have "resetSOC soc \<le> 100"
    by (cases soc) (simp_all add: resetSOC_def)
  then show ?thesis by (simp add: Reset consumed_reset BATTERY_CAPACITY_def)
qed

text \<open>
  Claim C2 says that the consumed capacity stays within 0 and the rated capacity after
  every sequence of updates and resets. The code clamps only the percentage it returns,
  never the accumulator: two hours at 2 A from a fresh state leave 4 Ah consumed of a
  rated 2 Ah, and a reset that asserts 150 percent leaves -1 Ah.
\<close>

theorem consumed_not_clamped_counterexample:
  "\<not> (consumedCapacityAh (run [Update 2 3.7 7200000] (initial 0)) \<le> ratedCapacityAh)
   \<and> \<not> (0 \<le> consumedCapacityAh (run [Reset (Some 150) 0] (initial 0)))"
  by (simp add: update_unfold integrate_def deltaTime_h_def initial_def Let_def
      consumedCapacityAh_def ratedCapacityAh_def BATTERY_CAPACITY_def reset_soc_def resetSOC_def)

text \<open>
  Claim C2, amended. From a state whose consumed capacity is not negative, after every
  sequence of updates and resets in which each reset asserts at most 100 percent (or
  nothing), the consumed capacity is still not negative. It has no upper bound; the
  percentage computed from it lies between 0 and 100 all the same.
\<close>

theorem consumed_lower_bound_invariant:
  "0 \<le> consumedCapacityAh s \<Longrightarrow> resets_at_most_100 ops \<Longrightarrow>
     0 \<le> consumedCapacityAh (run ops s)
     \<and> 0 \<le> socOf (run ops s) \<and> socOf (run ops s) \<le> 100"
proof (induction ops arbitrary: s)
  case Nil
  then show ?case using socOf_range [of s] by simp
next
  case (Cons x ops)
  from Cons.prems have "0 \<le> consumedCapacity s" and "asserts_at_most_100 x"
    by (simp_all add: consumedCapacityAh_def)
  then have "0 \<le> consumedCapacity (apply_operation x s)" by (rule apply_operation_nonneg)
  then have "0 \<le> consumedCapacityAh (apply_operation x s)" by (simp add: consumedCapacityAh_def)
  moreover from Cons.prems have "resets_at_most_100 ops" by simp
  ultimately show ?case using Cons.IH [of "apply_operation x s"] by simp
qed

theorem consumed_lower_bound_invariant_witness:
  "0 \<le> consumedCapacityAh (initial 0)
   \<and> resets_at_most_100 [Update 2 3.7 7200000, Reset (Some 40) 7200000, Update 1 3.7 9000000]
   \<and> 0 \<le> consumedCapacityAh
        (run [Update 2 3.7 7200000, Reset (Some 40) 7200000, Update 1 3.7 9000000] (initial 0))
   \<and> socOf (run [Update 2 3.7 7200000, Reset (Some 40) 7200000, Update 1 3.7 9000000] (initial 0))
        \<le> 100"
proof -
  have a: "0 \<le> consumedCapacityAh (initial 0)"
    by (simp add: consumedCapacityAh_def initial_def)
  have b: "resets_at_most_100
             [Update 2 3.7 7200000, Reset (Some 40) 7200000, Update 1 3.7 9000000]"
    by simp
  from consumed_lower_bound_invariant [OF a b] a b show ?thesis by blast
qed

subsection \<open>The clamp of the returned SOC and not-a-number\<close>

text \<open>
  The ordinary case in the model over doubles: 2 A for one hour from a fresh state
  consumes the whole rated capacity and returns 0.
\<close>

lemma update_d_full_discharge:
  "fst (update_d (Finite 2) 3.7 3600000 (initial_d 0)) = Finite 0"
  by (simp add: update_d_def calculateSOC_d_def initial_d_def sub_d_def overflow_def
      BATTERY_CAPACITY_def Let_def)


subsection \<open>Calibration through /api/reset-soc\<close>

text \<open>
  Claim C4 says that the asserted percentage is clamped to the range from 0 to 100
  before the consumed capacity is computed from it. The handler uses the
  asserted number as it is: asserting 150 leaves -1 Ah consumed, where the clamped
  formula gives 0 Ah.
\<close>

theorem reset_clamps_counterexample:
  "consumedCapacityAh (reset_soc (Some 150) 0 (initial 0)) = - 1
   \<and> ratedCapacityAh * (100 - max 0 (min 100 150)) / 100 = 0"
  by (simp add: consumedCapacityAh_def ratedCapacityAh_def BATTERY_CAPACITY_def reset_soc_def
      resetSOC_def)

text \<open>
  Claim C4, amended. A calibration call always succeeds. For an asserted percentage
  \<open>p\<close> other than 0 it sets the consumed capacity to rated capacity times
  \<open>(100 - p) / 100\<close> with \<open>p\<close> as given, not clamped; this is the clamped formula
  whenever \<open>p\<close> is between 0 and 100. Without an asserted percentage it uses 100.
  In every case the time of the last update becomes the clock reading of the call.
\<close>

theorem reset_sets_unclamped:
  "(p \<noteq> 0 \<longrightarrow>
      consumedCapacityAh (reset_soc (Some p) now s) = ratedCapacityAh * (100 - p) / 100)
   \<and> (p \<noteq> 0 \<and> 0 \<le> p \<and> p \<le> 100 \<longrightarrow>
      consumedCapacityAh (reset_soc (Some p) now s) =
        ratedCapacityAh * (100 - max 0 (min 100 p)) / 100)
   \<and> consumedCapacityAh (reset_soc None now s) = ratedCapacityAh * (100 - 100) / 100
   \<and> lastUpdateTime (reset_soc soc now s) = now"
  by (simp add: consumedCapacityAh_def ratedCapacityAh_def reset_soc_def resetSOC_def)

theorem reset_sets_unclamped_witness:
  "(40::real) \<noteq> 0 \<and> 0 \<le> (40::real) \<and> (40::real) \<le> 100
   \<and> consumedCapacityAh (reset_soc (Some 40) 5 (initial 0)) = ratedCapacityAh * (100 - 40) / 100
   \<and> consumedCapacityAh (reset_soc (Some 40) 5 (initial 0)) =
        ratedCapacityAh * (100 - max 0 (min 100 40)) / 100
   \<and> lastUpdateTime (reset_soc (Some 40) 5 (initial 0)) = 5"
  using reset_sets_unclamped [of 40 5 "initial 0" "Some 40"] by simp

text \<open>
  Claim C10. A calibration request that asserts an SOC of exactly 0 has the effect of a
  request without a value: \<open>soc || 100\<close> replaces the falsy 0 by 100, so the consumed
  capacity becomes 0 and the SOC computed from the state is 100.
\<close>

theorem reset_zero_takes_default:
  "reset_soc (Some 0) now s = reset_soc None now s
   \<and> consumedCapacityAh (reset_soc (Some 0) now s) = 0
   \<and> socOf (reset_soc (Some 0) now s) = 100"
  by (simp add: consumedCapacityAh_def reset_soc_def resetSOC_def socOf_def Let_def
      BATTERY_CAPACITY_def)

subsection \<open>What an update leaves alone\<close>

text \<open>
  Claim C5. An update changes the consumed capacity only when the clock has advanced and
  the current is positive. When the clock has not advanced, the whole state is unchanged
  and the call returns the SOC of that state, which is what the update before it
  returned. When the current is zero or negative, the consumed capacity and hence the
  returned SOC stay as they were, and on the integration path (clock advanced) the
  charging flag is set.
\<close>

theorem update_frame:
  "(deltaTime_h s now \<le> 0 \<longrightarrow>
      snd (update currentAmps voltage now s) = s
      \<and> fst (update currentAmps voltage now s) = socOf s)
   \<and> (deltaTime_h (snd (update c0 v0 t0 s0)) now \<le> 0 \<longrightarrow>
      update currentAmps voltage now (snd (update c0 v0 t0 s0)) = update c0 v0 t0 s0)
   \<and> (currentAmps \<le> 0 \<longrightarrow>
      consumedCapacityAh (snd (update currentAmps voltage now s)) = consumedCapacityAh s
      \<and> fst (update currentAmps voltage now s) = socOf s)
   \<and> (currentAmps \<le> 0 \<and> 0 < deltaTime_h s now \<longrightarrow>
      isCharging (snd (update currentAmps voltage now s)))
   \<and> (consumedCapacityAh (snd (update currentAmps voltage now s)) \<noteq> consumedCapacityAh s \<longrightarrow>
      0 < deltaTime_h s now \<and> 0 < currentAmps)"
proof (intro conjI impI)
  assume "deltaTime_h s now \<le> 0"
  then have "integrate (currentAmps * 1000) now s = s" by (rule integrate_stalled)
  then show "snd (update currentAmps voltage now s) = s"
    and "fst (update currentAmps voltage now s) = socOf s"
    by (simp_all add: update_unfold)
next
  assume "deltaTime_h (snd (update c0 v0 t0 s0)) now \<le> 0"
  then have "integrate (currentAmps * 1000) now (snd (update c0 v0 t0 s0)) = snd (update c0 v0 t0 s0)"
    by (rule integrate_stalled)
  then show "update currentAmps voltage now (snd (update c0 v0 t0 s0)) = update c0 v0 t0 s0"
    by (simp add: update_unfold)
next
  assume "currentAmps \<le> 0"
  then have "currentAmps * 1000 \<le> 0" by simp
  then have c: "consumedCapacity (integrate (currentAmps * 1000) now s) = consumedCapacity s"
    by (rule consumed_integrate_idle)
  then show "consumedCapacityAh (snd (update currentAmps voltage now s)) = consumedCapacityAh s"
    by (simp add: update_unfold consumedCapacityAh_def)
  from c show "fst (update currentAmps voltage now s) = socOf s"
    by (simp add: update_unfold socOf_def)
next
  assume "currentAmps \<le> 0 \<and> 0 < deltaTime_h s now"
  then show "isCharging (snd (update currentAmps voltage now s))"
    by (simp add: update_unfold integrate_def Let_def)
next
  assume d: "consumedCapacityAh (snd (update currentAmps voltage now s)) \<noteq> consumedCapacityAh s"
  show "0 < deltaTime_h s now"
  proof (rule ccontr)
    assume "\<not> 0 < deltaTime_h s now"
    then have "integrate (currentAmps * 1000) now s = s" by (simp add: integrate_stalled)
    with d show False by (simp add: update_unfold)
  qed
  show "0 < currentAmps"
  proof (rule ccontr)
    assume "\<not> 0 < currentAmps"
    then have "currentAmps * 1000 \<le> 0" by simp
    then have "consumedCapacity (integrate (currentAmps * 1000) now s) = consumedCapacity s"
      by (rule consumed_integrate_idle)
    with d show False by (simp add: update_unfold consumedCapacityAh_def)
  qed
qed

theorem update_frame_witness:
  "deltaTime_h (initial 0) 0 \<le> 0
   \<and> update (-1) 3.7 0 (initial 0) = (socOf (initial 0), initial 0)
   \<and> (-1::real) \<le> 0 \<and> 0 < deltaTime_h (initial 0) 3600000
   \<and> consumedCapacityAh (snd (update (-1) 3.7 3600000 (initial 0))) = consumedCapacityAh (initial 0)
   \<and> fst (update (-1) 3.7 3600000 (initial 0)) = socOf (initial 0)
   \<and> isCharging (snd (update (-1) 3.7 3600000 (initial 0)))
   \<and> deltaTime_h (snd (update 1 3.7 3600000 (initial 0))) 3600000 \<le> 0
   \<and> update 2 3.7 3600000 (snd (update 1 3.7 3600000 (initial 0))) = update 1 3.7 3600000 (initial 0)
   \<and> consumedCapacityAh (snd (update 1 3.7 3600000 (initial 0))) \<noteq> consumedCapacityAh (initial 0)"
proof -
  have h0: "deltaTime_h (initial 0) 0 \<le> 0"
    by (simp add: deltaTime_h_def initial_def)
  have h1: "0 < deltaTime_h (initial 0) 3600000"
    by (simp add: deltaTime_h_def initial_def)
  have h2: "deltaTime_h (snd (update 1 3.7 3600000 (initial 0))) 3600000 \<le> 0"
    by (simp add: update_unfold integrate_def deltaTime_h_def initial_def Let_def)
  have h3: "consumedCapacityAh (snd (update 1 3.7 3600000 (initial 0))) \<noteq> consumedCapacityAh (initial 0)"
    by (simp add: update_unfold integrate_def deltaTime_h_def initial_def Let_def consumedCapacityAh_def)
  from update_frame [of "initial 0" 0 "-1" "3.7"] h0
  have a: "update (-1) 3.7 0 (initial 0) = (socOf (initial 0), initial 0)"
    by (simp add: prod_eq_iff)
  from update_frame [of "initial 0" 3600000 "-1" "3.7"] h1
  have b: "consumedCapacityAh (snd (update (-1) 3.7 3600000 (initial 0))) = consumedCapacityAh (initial 0)
   \<and> fst (update (-1) 3.7 3600000 (initial 0)) = socOf (initial 0)
   \<and> isCharging (snd (update (-1) 3.7 3600000 (initial 0)))"
    by simp
  from update_frame [of _ 3600000 2 "3.7" 1 "3.7" 3600000 "initial 0"] h2
  have c: "update 2 3.7 3600000 (snd (update 1 3.7 3600000 (initial 0))) = update 1 3.7 3600000 (initial 0)"
    by simp
  from h0 h1 h2 h3 a b c show ?thesis by simp
qed

subsection \<open>Discharge never raises the SOC\<close>

lemma updates_bounded:
  "\<forall>x \<in> set (updates xs s). x \<le> socOf s"
proof (induction xs arbitrary: s)
  case Nil
  show ?case by simp
next
  case (Cons a xs)
  obtain c v t where a: "a = (c, v, t)" by (cases a)
  let ?s' = "integrate (c * 1000) t s"
  have le: "socOf ?s' \<le> socOf s"
    by (rule socOf_antimono) (rule consumed_integrate_mono)
  have "\<forall>x \<in> set (updates xs ?s'). x \<le> socOf ?s'" by (rule Cons.IH)
  with le show ?case by (auto simp: a update_unfold)
qed

text \<open>
  Claim C6. In a sequence of update calls that each see a positive current and an
  advanced clock, every returned SOC is at most each SOC returned before it.
\<close>

theorem discharge_soc_non_increasing:
  "discharging xs s \<Longrightarrow> sorted_wrt (\<lambda>a b. b \<le> a) (updates xs s)"
proof (induction xs arbitrary: s)
  case Nil
  show ?case by simp
next
  case (Cons a xs)
  obtain c v t where a: "a = (c, v, t)" by (cases a)
  let ?s' = "integrate (c * 1000) t s"
  from Cons.prems have "discharging xs ?s'" by (simp add: a update_unfold)
  then have "sorted_wrt (\<lambda>a b. b \<le> a) (updates xs ?s')" by (rule Cons.IH)
  moreover have "\<forall>x \<in> set (updates xs ?s'). x \<le> socOf ?s'" by (rule updates_bounded)
  ultimately show ?case by (simp add: a update_unfold)
qed

theorem discharge_soc_non_increasing_witness:
  "discharging [(1, 3.7, 1800000), (1, 3.7, 3600000), (2, 3.7, 7200000)] (initial 0)
   \<and> updates [(1, 3.7, 1800000), (1, 3.7, 3600000), (2, 3.7, 7200000)] (initial 0) = [75, 50, 0]
   \<and> sorted_wrt (\<lambda>a b. b \<le> a) [75, 50, 0::real]"
proof -
  have d: "discharging [(1, 3.7, 1800000), (1, 3.7, 3600000), (2, 3.7, 7200000)] (initial 0)"
    by (simp add: update_unfold integrate_def deltaTime_h_def initial_def Let_def)
  have u: "updates [(1, 3.7, 1800000), (1, 3.7, 3600000), (2, 3.7, 7200000)] (initial 0) = [75, 50, 0]"
    by (simp add: update_unfold integrate_def deltaTime_h_def initial_def Let_def socOf_def
        BATTERY_CAPACITY_def)
  from discharge_soc_non_increasing [OF d] d u show ?thesis by simp
qed

subsection \<open>State of health\<close>

text \<open>
  Claim C7. Both SOH models return a value between 0 and 100 for every voltage, current
  and temperature, and both return 100 at the nominal point: 3.7 V, 25 degrees and no
  current.
\<close>

theorem soh_in_range_and_nominal:
  "0 \<le> calculateSOH_A voltage current temperature
   \<and> calculateSOH_A voltage current temperature \<le> 100
   \<and> 0 \<le> calculateSOH_B voltage temperature
   \<and> calculateSOH_B voltage temperature \<le> 100
   \<and> calculateSOH_A 3.7 0 25 = 100
   \<and> calculateSOH_B 3.7 25 = 100"
proof (intro conjI)
  show "0 \<le> calculateSOH_A voltage current temperature"
    unfolding calculateSOH_A_def Let_def by (rule clamp_lower)
  show "calculateSOH_A voltage current temperature \<le> 100"
    unfolding calculateSOH_A_def Let_def by (rule clamp_upper)
  show "0 \<le> calculateSOH_B voltage temperature"
    and "calculateSOH_B voltage temperature \<le> 100"
    by (simp_all add: calculateSOH_B_def Let_def)
  show "calculateSOH_A 3.7 0 25 = 100"
    by (simp add: calculateSOH_A_def Let_def)
  show "calculateSOH_B 3.7 25 = 100"
    by (simp add: calculateSOH_B_def Let_def MIN_VOLTAGE_def NOMINAL_VOLTAGE_def)
qed

subsection \<open>Derived metrics\<close>

text \<open>
  Claim C8. The SOC handed to the runtime is a percentage that its caller has clamped,
  so it is not negative. With the available capacity \<open>soc / 100 * 2.0\<close>: the runtime
  is the available capacity unchanged when the current is zero, negative or not a
  number; otherwise it is the available capacity divided by the absolute current, times
  0.85. It is never negative. At an SOC of 50 and a current of 1.0 it is 0.85.
\<close>

theorem runtime_formula:
  "0 \<le> soc \<Longrightarrow>
     (c \<le> 0 \<longrightarrow> calculateRuntime soc (Num c) = soc / 100 * 2.0)
     \<and> calculateRuntime soc NaN = soc / 100 * 2.0
     \<and> (0 < c \<longrightarrow> calculateRuntime soc (Num c) = soc / 100 * 2.0 / \<bar>c\<bar> * 0.85)
     \<and> 0 \<le> calculateRuntime soc current
     \<and> calculateRuntime 50 (Num 1.0) = 0.85"
proof (intro conjI impI)
  assume soc: "0 \<le> soc"
  show "calculateRuntime soc NaN = soc / 100 * 2.0"
    by (simp add: calculateRuntime_def Let_def)
  show "calculateRuntime 50 (Num 1.0) = 0.85"
    by (simp add: calculateRuntime_def Let_def)
  from soc show "0 \<le> calculateRuntime soc current"
    by (cases current) (simp_all add: calculateRuntime_def Let_def)
  {
    assume "c \<le> 0"
    then show "calculateRuntime soc (Num c) = soc / 100 * 2.0"
      by (simp add: calculateRuntime_def Let_def)
  }
  {
    assume "0 < c"
    with soc show "calculateRuntime soc (Num c) = soc / 100 * 2.0 / \<bar>c\<bar> * 0.85"
      by (simp add: calculateRuntime_def Let_def)
  }
qed

theorem runtime_formula_witness:
  "(0::real) \<le> 50 \<and> (0::real) \<le> 0 \<and> calculateRuntime 50 (Num 0) = 1
   \<and> (0::real) < 4 \<and> calculateRuntime 50 (Num 4) = 50 / 100 * 2.0 / \<bar>4\<bar> * 0.85
   \<and> 0 \<le> calculateRuntime 50 (Num 4)"
proof -
  have soc: "(0::real) \<le> 50" by simp
  from runtime_formula [OF soc, of 0 "Num 4"] runtime_formula [OF soc, of 4 "Num 4"]
  show ?thesis by simp
qed

text \<open>
  Claim C9 says that power and available energy are not negative for every voltage,
  current and SOC. Neither function guards its inputs: a negative voltage reading gives
  a negative power and a negative energy.
\<close>

theorem metrics_nonneg_counterexample:
  "calculatePower (- 1) 1 < 0 \<and> calculateEnergy (- 1) 50 < 0"
  by (simp add: calculatePower_def calculateEnergy_def Let_def)

text \<open>
  Claim C9, amended. Power is voltage times absolute current and energy is voltage times
  \<open>soc / 100 * 2.0\<close>. Power is not negative when the voltage is not negative; energy
  is not negative when neither voltage nor SOC is negative; the runtime is not negative
  when the SOC is not negative; the range is never negative.
\<close>

theorem metrics_nonneg:
  "(0 \<le> voltage \<longrightarrow> 0 \<le> calculatePower voltage currentAmps)
   \<and> (0 \<le> voltage \<and> 0 \<le> soc \<longrightarrow> 0 \<le> calculateEnergy voltage soc)
   \<and> (0 \<le> soc \<longrightarrow> 0 \<le> calculateRuntime soc current)
   \<and> 0 \<le> calculateRange soc current
   \<and> calculatePower voltage currentAmps = voltage * \<bar>currentAmps\<bar>
   \<and> calculateEnergy voltage soc = voltage * (soc / 100 * 2.0)"
proof (intro conjI impI)
  show "0 \<le> voltage \<Longrightarrow> 0 \<le> calculatePower voltage currentAmps"
    by (simp add: calculatePower_def)
  show "0 \<le> voltage \<and> 0 \<le> soc \<Longrightarrow> 0 \<le> calculateEnergy voltage soc"
    by (simp add: calculateEnergy_def Let_def)
  show "0 \<le> soc \<Longrightarrow> 0 \<le> calculateRuntime soc current"
    by (cases current) (simp_all add: calculateRuntime_def Let_def)
  show "0 \<le> calculateRange soc current"
    by (simp add: calculateRange_def Let_def)
  show "calculatePower voltage currentAmps = voltage * \<bar>currentAmps\<bar>"
    by (simp add: calculatePower_def)
  show "calculateEnergy voltage soc = voltage * (soc / 100 * 2.0)"
    by (simp add: calculateEnergy_def Let_def)
qed

theorem metrics_nonneg_witness:
  "(0::real) \<le> 3.7 \<and> (0::real) \<le> 50
   \<and> 0 \<le> calculatePower 3.7 (- 1.5)
   \<and> 0 \<le> calculateEnergy 3.7 50
   \<and> 0 \<le> calculateRuntime 50 (Num 1)"
proof -
  have v: "(0::real) \<le> 3.7" and s: "(0::real) \<le> 50" by simp_all
  from metrics_nonneg [of "3.7" "- 1.5" 50 "Num 1"] v s show ?thesis by blast
qed

end
